theory Spec2Isabelle
  imports Main "HOL-Library.AList" "HOL-Library.Sublist"
begin

section \<open>Python values, dictionaries and exceptions\<close>

text \<open>
  The values that travel through the frame facade and the REST query compiler: index
  labels (\<open>int\<close>, \<open>str\<close>, \<open>None\<close>, \<open>slice\<close>, \<open>list\<close>), tuples of
  labels, keyword dictionaries and interval objects exposing attributes. A dictionary is
  an association list in insertion order; an object is the association list of its
  attributes.
\<close>

datatype pyval =
    PNone
  | PInt int
  | PStr string
  | PTuple "pyval list"
  | PList "pyval list"
  | PDict "(string \<times> pyval) list"
  | PSlice pyval pyval pyval
  | PObj "(string \<times> pyval) list"

type_synonym dict = "(string \<times> pyval) list"

text \<open>
  The exceptions the two modules raise, or let escape. \<open>KeyError\<close> carries the site that
  raised it, since the facade tells its failures apart by message only.
\<close>

datatype key_error =
    IllDefinedLocation    \<comment> \<open>"ill-defined location. Specify .at[index,column] ..."\<close>
  | ColumnNotFound        \<comment> \<open>"{column} not found. Valid columns are: ..."\<close>
  | NotUniqueIndex        \<comment> \<open>"{index} is not unique index."\<close>
  | UnderDefinedIndex     \<comment> \<open>"{index} is an under defined index."\<close>
  | NoRecords             \<comment> \<open>"Selection returned no records."\<close>
  | NoValues              \<comment> \<open>"Selection returned no values."\<close>
  | NotAColumn            \<comment> \<open>"{index} is not a dataframe column."\<close>
  | MissingKey string     \<comment> \<open>a dictionary subscript on an absent key\<close>

datatype error =
    KeyError key_error
  | NotImplementedError
  | InsertionError string
  | UnboundLocalError string
  | TypeError
  | ValueError
  | AttributeError string
  | IndexError
  | ValidationError string

text \<open>\<open>d[k]\<close> on a dictionary: the value, or \<open>KeyError\<close>.\<close>

definition dict_getitem :: "dict \<Rightarrow> string \<Rightarrow> error + pyval" where
  "dict_getitem d k = (case map_of d k of None \<Rightarrow> Inl (KeyError (MissingKey k)) | Some v \<Rightarrow> Inr v)"

text \<open>\<open>d[k] = v\<close>: an existing key keeps its place, a new key goes last.\<close>

definition dict_setitem :: "dict \<Rightarrow> string \<Rightarrow> pyval \<Rightarrow> dict" where
  "dict_setitem d k v = AList.update k v d"

text \<open>\<open>d.update(e)\<close>: the items of \<open>e\<close> are stored into \<open>d\<close> one after the other.\<close>

definition dict_update :: "dict \<Rightarrow> dict \<Rightarrow> dict" where
  "dict_update d e = fold (\<lambda>(k, v) acc. dict_setitem acc k v) e d"

text \<open>\<open>{name: lbl for name, lbl in zip(names, args)}\<close>.\<close>

definition dict_of_zip :: "string list \<Rightarrow> pyval list \<Rightarrow> dict" where
  "dict_of_zip names args = dict_update [] (zip names args)"

section \<open>Interval normalisation (\<open>interfaces/rest.py\<close>)\<close>

text \<open>
  \<^verbatim>\<open>
  def serializable_interval(interval):
      if isinstance(interval, list):
          return [serializable_interval(iv) for iv in interval]
      if isinstance(interval, tuple):
          left, right = interval
      elif isinstance(interval, dict):
          left, right = interval["left"], interval["right"]
      elif isinstance(interval, slice):
          left, right = interval.start, interval.stop
      elif hasattr(interval, "left") and hasattr(interval, "right"):
          left, right = interval.left, interval.right
      else:
          left = right = interval
      interval = {'left': left, 'right': right}
      return interval
  \<close>
  Unpacking a tuple that does not have exactly two components raises \<open>ValueError\<close>;
  subscripting a dictionary on an absent key raises \<open>KeyError\<close>. The list
  comprehension stops at the first element that raises.
\<close>

definition canonical :: "pyval \<Rightarrow> pyval \<Rightarrow> pyval" where
  "canonical left right = PDict [(''left'', left), (''right'', right)]"

definition hasattr :: "pyval \<Rightarrow> string \<Rightarrow> bool" where
  "hasattr v a = (case v of PObj attrs \<Rightarrow> map_of attrs a \<noteq> None | _ \<Rightarrow> False)"

definition getattr :: "pyval \<Rightarrow> string \<Rightarrow> error + pyval" where
  "getattr v a =
     (case v of
        PObj attrs \<Rightarrow> (case map_of attrs a of None \<Rightarrow> Inl (AttributeError a) | Some x \<Rightarrow> Inr x)
      | _ \<Rightarrow> Inl (AttributeError a))"

fun serializable_interval :: "pyval \<Rightarrow> error + pyval"
  and serializable_intervals :: "pyval list \<Rightarrow> error + pyval list" where
  "serializable_interval (PList ivs) =
     (case serializable_intervals ivs of Inl e \<Rightarrow> Inl e | Inr rs \<Rightarrow> Inr (PList rs))"
| "serializable_interval (PTuple xs) =
     (case xs of [left, right] \<Rightarrow> Inr (canonical left right) | _ \<Rightarrow> Inl ValueError)"
| "serializable_interval (PDict d) =
     (case dict_getitem d ''left'' of
        Inl e \<Rightarrow> Inl e
      | Inr left \<Rightarrow>
          (case dict_getitem d ''right'' of
             Inl e \<Rightarrow> Inl e
           | Inr right \<Rightarrow> Inr (canonical left right)))"
| "serializable_interval (PSlice start stop step) = Inr (canonical start stop)"
| "serializable_interval (PObj attrs) =
     (if hasattr (PObj attrs) ''left'' \<and> hasattr (PObj attrs) ''right''
      then (case getattr (PObj attrs) ''left'' of
              Inl e \<Rightarrow> Inl e
            | Inr left \<Rightarrow>
                (case getattr (PObj attrs) ''right'' of
                   Inl e \<Rightarrow> Inl e
                 | Inr right \<Rightarrow> Inr (canonical left right)))
      else Inr (canonical (PObj attrs) (PObj attrs)))"
| "serializable_interval PNone = Inr (canonical PNone PNone)"
| "serializable_interval (PInt i) = Inr (canonical (PInt i) (PInt i))"
| "serializable_interval (PStr s) = Inr (canonical (PStr s) (PStr s))"
| "serializable_intervals [] = Inr []"
| "serializable_intervals (iv # ivs) =
     (case serializable_interval iv of
        Inl e \<Rightarrow> Inl e
      | Inr r \<Rightarrow>
          (case serializable_intervals ivs of Inl e \<Rightarrow> Inl e | Inr rs \<Rightarrow> Inr (r # rs)))"

text \<open>The five input shapes of the specification, and the bare scalars among them.\<close>

fun is_scalar :: "pyval \<Rightarrow> bool" where
  "is_scalar PNone = True"
| "is_scalar (PInt i) = True"
| "is_scalar (PStr s) = True"
| "is_scalar (PObj attrs) = (\<not> (hasattr (PObj attrs) ''left'' \<and> hasattr (PObj attrs) ''right''))"
| "is_scalar v = False"

text \<open>The two bounds an interval-like value denotes (\<open>None\<close> where it denotes none).\<close>

fun bounds :: "pyval \<Rightarrow> (pyval \<times> pyval) option" where
  "bounds (PTuple xs) = (case xs of [left, right] \<Rightarrow> Some (left, right) | _ \<Rightarrow> None)"
| "bounds (PDict d) =
     (case (map_of d ''left'', map_of d ''right'') of
        (Some left, Some right) \<Rightarrow> Some (left, right)
      | _ \<Rightarrow> None)"
| "bounds (PSlice start stop step) = Some (start, stop)"
| "bounds (PObj attrs) =
     (case (map_of attrs ''left'', map_of attrs ''right'') of
        (Some left, Some right) \<Rightarrow> Some (left, right)
      | _ \<Rightarrow> Some (PObj attrs, PObj attrs))"
| "bounds (PList ivs) = None"
| "bounds v = Some (v, v)"


section \<open>The REST query compiler (\<open>interfaces/rest.py\<close>)\<close>


record 'c rest_interface =
  source :: 'c








text \<open>
  \<^verbatim>\<open>
  def from_url(cls, url: str, headers=None, **kwargs):
      if url.startswith("http://") or url.startswith("https://"):
          client = RestClient(url, headers)
          return cls(client)
      raise NotImplementedError
  \<close>
  \<open>RestClient\<close> is the constructor of the \<open>rest_client\<close> module, taken as a parameter.
\<close>

definition startswith :: "string \<Rightarrow> string \<Rightarrow> bool" where
  "startswith s p = prefix p s"

definition from_url :: "(string \<Rightarrow> 'h \<Rightarrow> 'c) \<Rightarrow> string \<Rightarrow> 'h \<Rightarrow> error + 'c rest_interface" where
  "from_url RestClient url headers =
     (if startswith url ''http://'' \<or> startswith url ''https://''
      then Inr \<lparr>source = RestClient url headers\<rparr>
      else Inl NotImplementedError)"

section \<open>The frame facade (\<open>rframe.py\<close>)\<close>

text \<open>
  A \<open>RemoteFrame\<close> holds a schema class and a datasource. The schema module and pandas
  are outside these sources, so what the facade calls of them is a field of the frame:
  \<^item> \<open>index_names\<close> is \<open>self.index.names\<close>, \<open>columns\<close> is \<open>self.columns\<close>;
  \<^item> \<open>construct\<close> is the constructor \<open>self.schema(**kwargs)\<close>, which validates;
  \<^item> \<open>save\<close> is \<open>doc.save(self.db)\<close>, which may change the datasource;
  \<^item> \<open>find\<close> is \<open>self.schema.find(self.db, **labels)\<close>;
  \<^item> \<open>pandas_dict\<close> is \<open>doc.pandas_dict()\<close>, \<open>to_dict\<close> is \<open>doc.dict()\<close>;
  \<^item> \<open>from_pandas\<close> is \<open>self.schema.from_pandas(records)\<close>;
  \<^item> \<open>to_frame\<close> is the shaping of the selected records (\<open>pd.json_normalize\<close>,
    \<open>sort_values\<close>, \<open>set_index\<close>) and \<open>project\<close> is \<open>df[columns]\<close>.
  The datasource is passed along, and returned by the operations that write.
\<close>

record ('doc, 'db, 'r, 'df) remote_frame =
  index_names :: "string list"
  columns :: "string list"
  construct :: "dict \<Rightarrow> error + 'doc"
  save :: "'doc \<Rightarrow> 'db \<Rightarrow> (error + 'r) \<times> 'db"
  find :: "'db \<Rightarrow> dict \<Rightarrow> error + 'doc list"
  pandas_dict :: "'doc \<Rightarrow> dict"
  to_dict :: "'doc \<Rightarrow> dict"
  from_pandas :: "'df \<Rightarrow> dict list"
  to_frame :: "dict list \<Rightarrow> error + 'df"
  project :: "'df \<Rightarrow> pyval \<Rightarrow> error + 'df"

text \<open>
  \<^verbatim>\<open>
  def sel_records(self, *args, **kwargs):
      index_fields = self.index.names
      labels = {name: lbl for name, lbl in zip(index_fields, args)}
      labels.update(kwargs)
      docs = self.schema.find(self.db, **labels)
      docs = [doc.pandas_dict() for doc in docs]
      return docs
  \<close>
\<close>

definition sel_records ::
  "('doc, 'db, 'r, 'df) remote_frame \<Rightarrow> 'db \<Rightarrow> pyval list \<Rightarrow> dict \<Rightarrow> error + dict list" where
  "sel_records self db args kwargs =
     (let labels = dict_of_zip (index_names self) args;
          labels = dict_update labels kwargs
      in case find self db labels of
           Inl e \<Rightarrow> Inl e
         | Inr docs \<Rightarrow> Inr (map (pandas_dict self) docs))"

definition sel ::
  "('doc, 'db, 'r, 'df) remote_frame \<Rightarrow> 'db \<Rightarrow> pyval list \<Rightarrow> dict \<Rightarrow> error + 'df" where
  "sel self db args kwargs =
     (case sel_records self db args kwargs of
        Inl e \<Rightarrow> Inl e
      | Inr docs \<Rightarrow> to_frame self docs)"

text \<open>
  \<^verbatim>\<open>
  def set(self, *args, **kwargs):
      labels = {name: lbl for name, lbl in zip(self.index.names, args)}
      kwargs.update(labels)
      doc = self.schema(**kwargs)
      return doc.save(self.db)
  \<close>
  \<open>set_record\<close> is the dictionary the constructor receives (the first two lines).
\<close>

definition set_record :: "string list \<Rightarrow> pyval list \<Rightarrow> dict \<Rightarrow> dict" where
  "set_record names args kwargs =
     (let labels = dict_of_zip names args
      in dict_update kwargs labels)"

definition set_labels ::
  "('doc, 'db, 'r, 'df) remote_frame \<Rightarrow> pyval list \<Rightarrow> dict \<Rightarrow> 'db \<Rightarrow> (error + 'r) \<times> 'db" where
  "set_labels self args kwargs db =
     (case construct self (set_record (index_names self) args kwargs) of
        Inl e \<Rightarrow> (Inl e, db)
      | Inr doc \<Rightarrow> save self doc db)"

text \<open>
  \<^verbatim>\<open>
  def concat(self, records):
      if isinstance(records, pd.DataFrame):
          records = self.schema.from_pandas(records)
      succeeded = []
      failed = []
      errors = []
      for record in records:
          if not isinstance(doc, self, self.schema):
              doc = self.schema(**record)
          try:
              doc.save(self.db)
              succeeded.append(doc)
          except InsertionError as e:
              failed.append(doc)
              errors.append(str(e))
      return succeeded, failed, errors
  \<close>
  \<open>doc\<close> is a local variable of \<open>concat\<close>, assigned only inside the loop and read by
  the condition before that: the variable is \<open>None\<close> here while it is unbound, and reading
  it then raises \<open>UnboundLocalError\<close>. \<open>isinstance\<close> takes two arguments, so the call
  with three raises \<open>TypeError\<close>.
\<close>

datatype 'df records = DataFrame 'df | Records "dict list"

definition isinstance3 :: "'a \<Rightarrow> 'b \<Rightarrow> 'c \<Rightarrow> error + bool" where
  "isinstance3 x a b = Inl TypeError"

fun concat_loop ::
  "('doc, 'db, 'r, 'df) remote_frame \<Rightarrow> dict list \<Rightarrow> 'doc option \<Rightarrow>
     'doc list \<Rightarrow> 'doc list \<Rightarrow> string list \<Rightarrow> 'db \<Rightarrow>
     (error + 'doc list \<times> 'doc list \<times> string list) \<times> 'db" where
  "concat_loop self [] doc succeeded failed errors db = (Inr (succeeded, failed, errors), db)"
| "concat_loop self (record # records) doc succeeded failed errors db =
     (case doc of
        None \<Rightarrow> (Inl (UnboundLocalError ''doc''), db)
      | Some d \<Rightarrow>
          (case isinstance3 d self self of
             Inl e \<Rightarrow> (Inl e, db)
           | Inr b \<Rightarrow>
               (case (if \<not> b then construct self record else Inr d) of
                  Inl e \<Rightarrow> (Inl e, db)
                | Inr doc' \<Rightarrow>
                    (case save self doc' db of
                       (Inr r, db') \<Rightarrow>
                         concat_loop self records (Some doc') (succeeded @ [doc']) failed errors db'
                     | (Inl (InsertionError msg), db') \<Rightarrow>
                         concat_loop self records (Some doc') succeeded (failed @ [doc'])
                           (errors @ [msg]) db'
                     | (Inl e, db') \<Rightarrow> (Inl e, db')))))"

definition concat ::
  "('doc, 'db, 'r, 'df) remote_frame \<Rightarrow> 'df records \<Rightarrow> 'db \<Rightarrow>
     (error + 'doc list \<times> 'doc list \<times> string list) \<times> 'db" where
  "concat self records db =
     (let records = (case records of DataFrame df \<Rightarrow> from_pandas self df | Records rs \<Rightarrow> rs)
      in concat_loop self records None [] [] [] db)"

subsection \<open>\<open>RemoteSeries\<close>\<close>

record ('doc, 'db, 'r, 'df) remote_series =
  obj :: "('doc, 'db, 'r, 'df) remote_frame"
  column :: string

text \<open>
  \<^verbatim>\<open>
  def sel_values(self, *args, **kwargs):
      docs = self.obj.sel_records(*args, **kwargs)
      return [doc[self.column] for doc in docs]

  def sel_value(self, *args, **kwargs):
      values = self.sel_values(*args, **kwargs)
      if values:
          return values[0]
      raise KeyError("Selection returned no values.")

  def set(self, *args, **kwargs):
      raise InsertionError(
          "Cannot set values on a RemoteSeries object," "use the RemoteDataFrame."
      )
  \<close>
\<close>

fun getitems :: "dict list \<Rightarrow> string \<Rightarrow> error + pyval list" where
  "getitems [] c = Inr []"
| "getitems (doc # docs) c =
     (case dict_getitem doc c of
        Inl e \<Rightarrow> Inl e
      | Inr v \<Rightarrow> (case getitems docs c of Inl e \<Rightarrow> Inl e | Inr vs \<Rightarrow> Inr (v # vs)))"

definition series_sel_values ::
  "('doc, 'db, 'r, 'df) remote_series \<Rightarrow> 'db \<Rightarrow> pyval list \<Rightarrow> dict \<Rightarrow> error + pyval list" where
  "series_sel_values self db args kwargs =
     (case sel_records (obj self) db args kwargs of
        Inl e \<Rightarrow> Inl e
      | Inr docs \<Rightarrow> getitems docs (column self))"

definition series_sel_value ::
  "('doc, 'db, 'r, 'df) remote_series \<Rightarrow> 'db \<Rightarrow> pyval list \<Rightarrow> dict \<Rightarrow> error + pyval" where
  "series_sel_value self db args kwargs =
     (case series_sel_values self db args kwargs of
        Inl e \<Rightarrow> Inl e
      | Inr values \<Rightarrow>
          (case values of v # vs \<Rightarrow> Inr v | [] \<Rightarrow> Inl (KeyError NoValues)))"

definition series_set ::
  "('doc, 'db, 'r, 'df) remote_series \<Rightarrow> pyval list \<Rightarrow> dict \<Rightarrow> 'db \<Rightarrow> (error + 'r) \<times> 'db" where
  "series_set self args kwargs db =
     (Inl (InsertionError ''Cannot set values on a RemoteSeries object,use the RemoteDataFrame.''),
      db)"

text \<open>
  \<^verbatim>\<open>
  def __getitem__(self, index):      # RemoteSeries
      if not isinstance(index, tuple):
          index = (index,)
      return self.obj.sel(*index)[self.column]
  \<close>
\<close>

definition as_tuple :: "pyval \<Rightarrow> pyval list" where
  "as_tuple index = (case index of PTuple xs \<Rightarrow> xs | _ \<Rightarrow> [index])"

definition series_getitem ::
  "('doc, 'db, 'r, 'df) remote_series \<Rightarrow> 'db \<Rightarrow> pyval \<Rightarrow> error + 'df" where
  "series_getitem self db index =
     (case sel (obj self) db (as_tuple index) [] of
        Inl e \<Rightarrow> Inl e
      | Inr df \<Rightarrow> project (obj self) df (PStr (column self)))"

text \<open>
  \<^verbatim>\<open>
  def __getitem__(self, index):      # RemoteFrame
      if isinstance(index, str) and index in self.columns:
          return RemoteSeries(self, index)
      if isinstance(index, tuple) and index[0] in self.columns:
          return RemoteSeries(self, index[0])[index[1:]]
      raise KeyError(f"{index} is not a dataframe column.")
  \<close>
  \<open>in_columns\<close> is \<open>c in self.columns\<close> for a value \<open>c\<close>: the columns are strings,
  and only a string is equal to one.
\<close>

definition in_columns :: "pyval \<Rightarrow> string list \<Rightarrow> bool" where
  "in_columns c cols = (case c of PStr s \<Rightarrow> s \<in> set cols | _ \<Rightarrow> False)"

datatype ('s, 'df) item = Series 's | Frame 'df

definition frame_getitem ::
  "('doc, 'db, 'r, 'df) remote_frame \<Rightarrow> 'db \<Rightarrow> pyval \<Rightarrow>
     error + (('doc, 'db, 'r, 'df) remote_series, 'df) item" where
  "frame_getitem self db index =
     (case index of
        PStr s \<Rightarrow>
          (if s \<in> set (columns self) then Inr (Series \<lparr>obj = self, column = s\<rparr>)
           else Inl (KeyError NotAColumn))
      | PTuple [] \<Rightarrow> Inl IndexError
      | PTuple (PStr s # rest) \<Rightarrow>
          (if s \<in> set (columns self)
           then (case series_getitem \<lparr>obj = self, column = s\<rparr> db (PTuple rest) of
                   Inl e \<Rightarrow> Inl e
                 | Inr df \<Rightarrow> Inr (Frame df))
           else Inl (KeyError NotAColumn))
      | _ \<Rightarrow> Inl (KeyError NotAColumn))"

subsection \<open>The \<open>loc\<close> indexer\<close>






subsection \<open>The \<open>at\<close> indexer\<close>

text \<open>
  \<^verbatim>\<open>
  def __getitem__(self, key):
      if not (isinstance(key, tuple) and len(key) == 2):
          raise KeyError("ill-defined location. Specify "
                         ".at[index,column] where index can be a tuple.")
      index, column = key
      if column not in self.obj.columns:
          raise KeyError(f"{column} not found. Valid columns are: {self.obj.columns}")
      if not isinstance(index, tuple):
          index = (index,)
      if any([isinstance(idx, (slice, list, type(None))) for idx in index]):
          raise KeyError(f"{index} is not unique index.")
      if len(index) < len(self.obj.index.names):
          KeyError(f"{index} is an under defined index.")
      return self.obj[column].sel_value(*index)
  \<close>
  The last \<open>if\<close> builds its \<open>KeyError\<close> and drops it: there is no \<open>raise\<close>, so
  both branches go on to the selection.
\<close>

fun is_slice_list_none :: "pyval \<Rightarrow> bool" where
  "is_slice_list_none (PSlice a b c) = True"
| "is_slice_list_none (PList xs) = True"
| "is_slice_list_none PNone = True"
| "is_slice_list_none v = False"

definition at_getitem ::
  "('doc, 'db, 'r, 'df) remote_frame \<Rightarrow> 'db \<Rightarrow> pyval \<Rightarrow> error + pyval" where
  "at_getitem self db key =
     (case key of
        PTuple [index, col] \<Rightarrow>
          (if \<not> in_columns col (columns self) then Inl (KeyError ColumnNotFound)
           else
             let index = as_tuple index in
             if list_ex is_slice_list_none index then Inl (KeyError NotUniqueIndex)
             else
               let dropped = (if length index < length (index_names self)
                              then Some (KeyError UnderDefinedIndex) else None)
               in (case frame_getitem self db col of
                     Inl e \<Rightarrow> Inl e
                   | Inr (Series s) \<Rightarrow> series_sel_value s db index []
                   | Inr (Frame df) \<Rightarrow> Inl (AttributeError ''sel_value'')))
      | _ \<Rightarrow> Inl (KeyError IllDefinedLocation))"

section \<open>A document store to run the facade on\<close>

text \<open>
  Modelled from the spec: the schema module and the datasource are not among these
  sources. \<open>store_frame\<close> binds a frame to the simplest backend that meets the
  capability contract of the specification (section 6): the datasource is the list of its
  documents, \<open>find\<close> returns the documents equal to the labels on every constrained
  field (a field with no label is unconstrained), \<open>save\<close> appends one document, the
  constructor accepts every mapping, and a selection is shaped into the list of its
  records. It only serves to evaluate the facade on concrete inputs.
\<close>

definition matches :: "dict \<Rightarrow> dict \<Rightarrow> bool" where
  "matches labels doc = list_all (\<lambda>kv. map_of doc (fst kv) = Some (snd kv)) labels"

definition keep_columns :: "pyval \<Rightarrow> dict \<Rightarrow> dict" where
  "keep_columns cs doc =
     filter (\<lambda>kv. case cs of PList xs \<Rightarrow> PStr (fst kv) \<in> set xs | _ \<Rightarrow> PStr (fst kv) = cs) doc"

definition store_frame ::
  "string list \<Rightarrow> string list \<Rightarrow> (dict, dict list, dict, dict list) remote_frame" where
  "store_frame names cols =
     \<lparr>index_names = names,
      columns = cols,
      construct = Inr,
      save = (\<lambda>doc db. (Inr doc, db @ [doc])),
      find = (\<lambda>db labels. Inr (filter (matches labels) db)),
      pandas_dict = (\<lambda>doc. doc),
      to_dict = (\<lambda>doc. doc),
      from_pandas = (\<lambda>df. df),
      to_frame = Inr,
      project = (\<lambda>df cs. Inr (map (keep_columns cs) df))\<rparr>"

section \<open>Dictionaries\<close>

lemma map_of_dict_update:
  "map_of (dict_update d e) k =
     (case map_of (rev e) k of Some v \<Rightarrow> Some v | None \<Rightarrow> map_of d k)"
proof (induction e arbitrary: d)
  case Nil
  then show ?case by (simp add: dict_update_def)
next
  case (Cons kv e)
  obtain k' v' where kv: "kv = (k', v')" by (cases kv)
  have "dict_update d (kv # e) = dict_update (dict_setitem d k' v') e"
    by (simp add: dict_update_def kv)
  then show ?case
    using Cons.IH [of "dict_setitem d k' v'"]
    by (simp add: dict_setitem_def update_conv' kv map_add_def split: option.splits)
qed

lemma distinct_dict_update:
  "distinct (map fst d) \<Longrightarrow> distinct (map fst (dict_update d e))"
proof (induction e arbitrary: d)
  case Nil
  then show ?case by (simp add: dict_update_def)
next
  case (Cons kv e)
  obtain k' v' where kv: "kv = (k', v')" by (cases kv)
  have "dict_update d (kv # e) = dict_update (dict_setitem d k' v') e"
    by (simp add: dict_update_def kv)
  then show ?case
    using Cons.IH [of "dict_setitem d k' v'"] Cons.prems
    by (simp add: dict_setitem_def distinct_update)
qed

lemma map_of_rev_distinct:
  "distinct (map fst xs) \<Longrightarrow> map_of (rev xs) = map_of xs"
  by (rule map_of_inject_set[THEN iffD2]) (simp_all add: rev_map[symmetric])

lemma map_of_dict_of_zip:
  "map_of (rev (dict_of_zip names args)) k = map_of (rev (zip names args)) k"
proof -
  have "distinct (map fst (dict_of_zip names args))"
    unfolding dict_of_zip_def by (rule distinct_dict_update) simp
  then have "map_of (rev (dict_of_zip names args)) k = map_of (dict_of_zip names args) k"
    by (simp add: map_of_rev_distinct)
  also have "\<dots> = map_of (rev (zip names args)) k"
    by (simp add: dict_of_zip_def map_of_dict_update split: option.splits)
  finally show ?thesis .
qed

lemma map_of_set_record:
  "map_of (set_record names args kwargs) k =
     (case map_of (rev (zip names args)) k of Some v \<Rightarrow> Some v | None \<Rightarrow> map_of kwargs k)"
  by (simp add: set_record_def map_of_dict_update map_of_dict_of_zip)

section \<open>Interval normalisation\<close>


lemma bounds_normalize:
  "bounds x = Some (l, r) \<Longrightarrow> serializable_interval x = Inr (canonical l r)"
  by (cases x)
     (auto simp: dict_getitem_def hasattr_def getattr_def
           split: list.splits option.splits if_splits)

lemma normalize_canonical_fix:
  "serializable_interval (canonical l r) = Inr (canonical l r)"
  by (simp add: canonical_def dict_getitem_def)


lemma normalize_idem:
  "serializable_interval x = Inr y \<Longrightarrow> serializable_interval y = Inr y"
  "serializable_intervals xs = Inr ys \<Longrightarrow> serializable_intervals ys = Inr ys"
proof (induction x and xs arbitrary: y and ys
    rule: serializable_interval_serializable_intervals.induct)
  case (1 ivs)
  then show ?case by (auto split: sum.splits)
next
  case (2 xs)
  then show ?case by (auto simp: normalize_canonical_fix split: list.splits)
next
  case (3 d)
  then show ?case by (auto simp: normalize_canonical_fix split: sum.splits)
next
  case (5 attrs)
  then show ?case by (auto simp: normalize_canonical_fix split: sum.splits if_splits)
next
  case (10 iv ivs)
  then show ?case by (auto split: sum.splits)
qed (auto simp: normalize_canonical_fix)

lemma scalar_bounds: "is_scalar x \<Longrightarrow> bounds x = Some (x, x)"
  by (cases x) (auto simp: hasattr_def split: option.splits)

text \<open>
  C5, as the claim states it, fails: the canonical form has equal bounds exactly when
  the input is a bare scalar. The pair \<open>(3, 3)\<close> is no scalar, and its canonical form has
  \<open>left\<close> equal to \<open>right\<close>.
\<close>

theorem normalize_equal_bounds_counterexample:
  "serializable_interval (PTuple [PInt 3, PInt 3]) =
     Inr (PDict [(''left'', PInt 3), (''right'', PInt 3)])
   \<and> \<not> is_scalar (PTuple [PInt 3, PInt 3])"
  by (simp add: canonical_def)

text \<open>
  C5, amended: for every interval-like input (pair, labelled pair, half-open range,
  bound object, scalar) normalisation returns the canonical form of the input's two
  bounds; for a bare scalar both bounds are the scalar itself, so \<open>left\<close> equals
  \<open>right\<close> (they are also equal for a non-scalar input whose own bounds are equal); and
  normalisation is idempotent: applied to a canonical form, or to any of its results, it
  returns that value unchanged.
\<close>

theorem normalize_bounds_idempotent:
  assumes "bounds x = Some (l, r)"
  shows "serializable_interval x = Inr (canonical l r)
       \<and> (is_scalar x \<longrightarrow> l = x \<and> r = x)
       \<and> serializable_interval (canonical l r) = Inr (canonical l r)
       \<and> (\<forall>z y. serializable_interval z = Inr y \<longrightarrow> serializable_interval y = Inr y)"
proof -
  have "is_scalar x \<longrightarrow> l = x \<and> r = x"
    using assms scalar_bounds [of x] by auto
  then show ?thesis
    using assms by (simp add: bounds_normalize normalize_canonical_fix normalize_idem(1))
qed

theorem normalize_bounds_idempotent_witness:
  "bounds (PInt 7) = Some (PInt 7, PInt 7)
   \<and> is_scalar (PInt 7)
   \<and> serializable_interval (PInt 7) = Inr (canonical (PInt 7) (PInt 7))
   \<and> serializable_interval (canonical (PInt 7) (PInt 7)) = Inr (canonical (PInt 7) (PInt 7))
   \<and> bounds (PTuple [PInt 0, PInt 10]) = Some (PInt 0, PInt 10)
   \<and> serializable_interval (PTuple [PInt 0, PInt 10]) = Inr (canonical (PInt 0) (PInt 10))"
proof -
  have a: "bounds (PInt 7) = Some (PInt 7, PInt 7)" by simp
  have b: "bounds (PTuple [PInt 0, PInt 10]) = Some (PInt 0, PInt 10)" by simp
  show ?thesis
    using a b normalize_bounds_idempotent [OF a] normalize_bounds_idempotent [OF b]
    by simp
qed





section \<open>The frame facade: writes\<close>

text \<open>
  C2, as the claim states it, fails: named labels are not primary. With the index field
  \<open>a\<close> given positionally as 1 and by name as 2, the record handed to the constructor,
  and the document stored, have \<open>a = 1\<close>.
\<close>

theorem set_named_primary_counterexample:
  "set_record [''a''] [PInt 1] [(''a'', PInt 2), (''v'', PInt 9)] =
     [(''a'', PInt 1), (''v'', PInt 9)]
   \<and> set_labels (store_frame [''a''] [''v'']) [PInt 1] [(''a'', PInt 2), (''v'', PInt 9)] [] =
       (Inr [(''a'', PInt 1), (''v'', PInt 9)], [[(''a'', PInt 1), (''v'', PInt 9)]])"
  by (simp add: set_labels_def set_record_def dict_of_zip_def dict_update_def dict_setitem_def
        store_frame_def)

text \<open>
  C2, amended: for every call to \<open>set\<close> with positional and named labels, the record
  constructed and persisted is the merge in which the positional labels are primary: the
  i-th positional label is the value of the i-th index field, whatever the named labels
  say, and a named label is stored for every field that no positional label binds.
\<close>

theorem set_positional_primary:
  assumes "distinct (index_names self)"
  shows "set_labels self args kwargs db =
           (case construct self (set_record (index_names self) args kwargs) of
              Inl e \<Rightarrow> (Inl e, db)
            | Inr doc \<Rightarrow> save self doc db)
       \<and> (\<forall>i. i < length (index_names self) \<and> i < length args \<longrightarrow>
            map_of (set_record (index_names self) args kwargs) (index_names self ! i) =
              Some (args ! i))
       \<and> (\<forall>k. k \<notin> set (take (length args) (index_names self)) \<longrightarrow>
            map_of (set_record (index_names self) args kwargs) k = map_of kwargs k)"
proof -
  let ?names = "index_names self"
  have t: "map fst (zip ?names args) = take (length args) ?names"
    by (simp add: map_fst_zip_take min_def)
  have d: "distinct (map fst (zip ?names args))"
    using assms by (simp add: t)
  have r: "map_of (rev (zip ?names args)) = map_of (zip ?names args)"
    using d by (rule map_of_rev_distinct)
  have a: "map_of (zip ?names args) (?names ! i) = Some (args ! i)"
    if "i < length ?names" "i < length args" for i
  proof -
    have "(?names ! i, args ! i) \<in> set (zip ?names args)"
      using that by (auto simp: set_zip)
    then show ?thesis using d by simp
  qed
  have b: "map_of (zip ?names args) k = None" if "k \<notin> set (take (length args) ?names)" for k
  proof -
    have "k \<notin> fst ` set (zip ?names args)"
      using that t by (metis set_map)
    then show ?thesis by (simp add: map_of_eq_None_iff)
  qed
  show ?thesis
    by (simp add: set_labels_def map_of_set_record r a b)
qed

theorem set_positional_primary_witness:
  "distinct (index_names (store_frame [''a'', ''b''] [''v'']))
   \<and> map_of (set_record [''a'', ''b''] [PInt 1] [(''a'', PInt 2), (''b'', PInt 3), (''v'', PInt 9)])
        ''a'' = Some (PInt 1)
   \<and> map_of (set_record [''a'', ''b''] [PInt 1] [(''a'', PInt 2), (''b'', PInt 3), (''v'', PInt 9)])
        ''b'' = Some (PInt 3)
   \<and> map_of (set_record [''a'', ''b''] [PInt 1] [(''a'', PInt 2), (''b'', PInt 3), (''v'', PInt 9)])
        ''v'' = Some (PInt 9)"
proof -
  have d: "distinct (index_names (store_frame [''a'', ''b''] [''v'']))"
    by (simp add: store_frame_def)
  have n: "index_names (store_frame [''a'', ''b''] [''v'']) = [''a'', ''b'']"
    by (simp add: store_frame_def)
  note w = set_positional_primary [OF d, of "[PInt 1]"
      "[(''a'', PInt 2), (''b'', PInt 3), (''v'', PInt 9)]" "[]", unfolded n]
  from w have "map_of (set_record [''a'', ''b''] [PInt 1]
        [(''a'', PInt 2), (''b'', PInt 3), (''v'', PInt 9)]) ([''a'', ''b''] ! 0) = Some ([PInt 1] ! 0)"
    by simp
  moreover from w have "map_of (set_record [''a'', ''b''] [PInt 1]
        [(''a'', PInt 2), (''b'', PInt 3), (''v'', PInt 9)]) ''b'' = Some (PInt 3)"
    by simp
  moreover from w have "map_of (set_record [''a'', ''b''] [PInt 1]
        [(''a'', PInt 2), (''b'', PInt 3), (''v'', PInt 9)]) ''v'' = Some (PInt 9)"
    by simp
  ultimately show ?thesis using d by simp
qed

text \<open>
  C1: \<open>concat\<close> attempts each record of the batch on its own and returns the succeeded
  records, the failed records and the error messages. The code does not: the loop reads
  its local variable \<open>doc\<close> before the first assignment, so on every batch that is not
  empty the call raises \<open>UnboundLocalError\<close> at the first record, before any document
  is constructed or saved. Only the empty batch returns.
\<close>

theorem concat_nonempty_batch_raises:
  "concat self (Records (r1 # rs)) db = (Inl (UnboundLocalError ''doc''), db)
   \<and> concat self (Records []) db = (Inr ([], [], []), db)"
  by (simp add: concat_def)

theorem concat_nonempty_batch_raises_witness:
  "concat (store_frame [''a''] [''v''])
     (Records [[(''a'', PInt 1), (''v'', PInt 1)], [(''a'', PNone)], [(''a'', PInt 3), (''v'', PInt 3)]])
     [] = (Inl (UnboundLocalError ''doc''), [])"
  using concat_nonempty_batch_raises [of "store_frame [''a''] [''v'']"
      "[(''a'', PInt 1), (''v'', PInt 1)]"
      "[[(''a'', PNone)], [(''a'', PInt 3), (''v'', PInt 3)]]" "[]"]
  by simp

text \<open>
  C9: \<open>set\<close> on a single-column series view raises \<open>InsertionError\<close> for every
  combination of arguments, and leaves the datasource as it was.
\<close>

theorem series_set_raises:
  "\<exists>msg. series_set self args kwargs db = (Inl (InsertionError msg), db)"
  by (simp add: series_set_def)

theorem series_set_raises_witness:
  "\<exists>msg. series_set \<lparr>obj = store_frame [''a''] [''v''], column = ''v''\<rparr> [PInt 1]
       [(''v'', PInt 2)] [[(''a'', PInt 0), (''v'', PInt 0)]] =
     (Inl (InsertionError msg), [[(''a'', PInt 0), (''v'', PInt 0)]])"
  by (rule series_set_raises)



section \<open>The REST interface: construction\<close>

text \<open>
  C8: \<open>from_url\<close> returns an interface exactly for the strings that begin with
  \<open>http://\<close> or \<open>https://\<close>; on every other string it raises
  \<open>NotImplementedError\<close>, the unsupported-backend failure, and so on \<open>ftp://host\<close>.
\<close>

theorem from_url_schemes:
  "((\<exists>i. from_url RestClient url headers = Inr i) \<longleftrightarrow>
      (\<exists>rest. url = ''http://'' @ rest \<or> url = ''https://'' @ rest))
   \<and> (from_url RestClient url headers = Inl NotImplementedError \<longleftrightarrow>
      \<not> (\<exists>rest. url = ''http://'' @ rest \<or> url = ''https://'' @ rest))
   \<and> ((\<exists>rest. url = ''http://'' @ rest \<or> url = ''https://'' @ rest) \<longrightarrow>
        from_url RestClient url headers = Inr \<lparr>source = RestClient url headers\<rparr>)
   \<and> from_url RestClient ''ftp://host'' headers = Inl NotImplementedError"
  by (auto simp: from_url_def startswith_def prefix_def)

theorem from_url_schemes_witness:
  "from_url (\<lambda>url headers. (url, headers)) ''https://host/api'' ''token'' =
     Inr \<lparr>source = (''https://host/api'', ''token'')\<rparr>
   \<and> from_url (\<lambda>url headers. (url, headers)) ''ftp://host'' ''token'' = Inl NotImplementedError
   \<and> from_url (\<lambda>url headers. (url, headers)) ''httpx://host'' ''token'' = Inl NotImplementedError"
proof -
  have a: "\<exists>rest. ''https://host/api'' = ''http://'' @ rest \<or> ''https://host/api'' = ''https://'' @ rest"
    by simp
  have b: "\<not> (\<exists>rest. ''httpx://host'' = ''http://'' @ rest \<or> ''httpx://host'' = ''https://'' @ rest)"
    by simp
  show ?thesis
    using a b
      from_url_schemes [of "\<lambda>url headers. (url, headers)" "''https://host/api''" "''token''"]
      from_url_schemes [of "\<lambda>url headers. (url, headers)" "''httpx://host''" "''token''"]
    by simp
qed

section \<open>The frame facade: indexers\<close>




text \<open>
  C3: an \<open>at\<close> lookup fails with the ill-defined-location \<open>KeyError\<close> on an index
  tuple that holds a slice, a list or \<open>None\<close>, or that has fewer components than the
  index has fields; with the column-not-found \<open>KeyError\<close> on an unknown column; with
  the empty-selection \<open>KeyError\<close> when no record matches. The code checks the column
  first, then the components; its last check builds the \<open>KeyError\<close> for a short tuple
  and never raises it. So a short tuple of scalars is not rejected: the lookup goes on
  to the selection with the labels it has and returns the value of the first record
  found, whatever the number of index fields.
\<close>

theorem at_getitem_cases:
  "((\<forall>i c. key \<noteq> PTuple [i, c]) \<longrightarrow> at_getitem self db key = Inl (KeyError IllDefinedLocation))
   \<and> (\<not> in_columns col (columns self) \<longrightarrow>
        at_getitem self db (PTuple [index, col]) = Inl (KeyError ColumnNotFound))
   \<and> (c \<in> set (columns self) \<and> list_ex is_slice_list_none (as_tuple index) \<longrightarrow>
        at_getitem self db (PTuple [index, PStr c]) = Inl (KeyError NotUniqueIndex))
   \<and> (c \<in> set (columns self) \<and> \<not> list_ex is_slice_list_none (as_tuple index) \<longrightarrow>
        at_getitem self db (PTuple [index, PStr c]) =
          series_sel_value \<lparr>obj = self, column = c\<rparr> db (as_tuple index) [])
   \<and> (c \<in> set (columns self) \<and> \<not> list_ex is_slice_list_none (as_tuple index)
        \<and> sel_records self db (as_tuple index) [] = Inr [] \<longrightarrow>
        at_getitem self db (PTuple [index, PStr c]) = Inl (KeyError NoValues))"
proof -
  have bad: "at_getitem self db key = Inl (KeyError IllDefinedLocation)"
    if "\<forall>i c. key \<noteq> PTuple [i, c]"
    using that by (cases key) (auto simp: at_getitem_def split: list.splits)
  have sel: "at_getitem self db (PTuple [index, PStr c]) =
          series_sel_value \<lparr>obj = self, column = c\<rparr> db (as_tuple index) []"
    if "c \<in> set (columns self)" "\<not> list_ex is_slice_list_none (as_tuple index)"
    using that by (simp add: at_getitem_def in_columns_def frame_getitem_def Let_def)
  have none: "series_sel_value \<lparr>obj = self, column = c\<rparr> db (as_tuple index) [] =
          Inl (KeyError NoValues)"
    if "sel_records self db (as_tuple index) [] = Inr []"
    using that by (simp add: series_sel_value_def series_sel_values_def)
  show ?thesis
    using bad sel none
    by (simp add: at_getitem_def in_columns_def)
qed

theorem at_getitem_cases_witness:
  "length (as_tuple (PTuple [])) < length (index_names (store_frame [''i''] [''col'']))
   \<and> at_getitem (store_frame [''i''] [''col'']) [[(''i'', PInt 1), (''col'', PInt 7)]]
        (PTuple [PTuple [], PStr ''col'']) = Inr (PInt 7)
   \<and> length (as_tuple (PTuple [PInt 1])) < length (index_names (store_frame [''i'', ''j''] [''col'']))
   \<and> at_getitem (store_frame [''i'', ''j''] [''col''])
        [[(''i'', PInt 1), (''j'', PInt 2), (''col'', PInt 7)],
         [(''i'', PInt 1), (''j'', PInt 3), (''col'', PInt 8)]]
        (PTuple [PTuple [PInt 1], PStr ''col'']) = Inr (PInt 7)
   \<and> at_getitem (store_frame [''i''] [''col'']) [[(''i'', PInt 1), (''col'', PInt 7)]]
        (PTuple [PTuple [PInt 5], PStr ''col'']) = Inl (KeyError NoValues)
   \<and> at_getitem (store_frame [''i''] [''col'']) [[(''i'', PInt 1), (''col'', PInt 7)]]
        (PTuple [PTuple [PSlice PNone PNone PNone], PStr ''col'']) = Inl (KeyError NotUniqueIndex)
   \<and> at_getitem (store_frame [''i''] [''col'']) [[(''i'', PInt 1), (''col'', PInt 7)]]
        (PTuple [PTuple [PSlice PNone PNone PNone], PStr ''nocol'']) = Inl (KeyError ColumnNotFound)
   \<and> at_getitem (store_frame [''i''] [''col'']) [[(''i'', PInt 1), (''col'', PInt 7)]]
        (PInt 5) = Inl (KeyError IllDefinedLocation)"
proof -
  let ?f = "store_frame [''i''] [''col'']"
  let ?g = "store_frame [''i'', ''j''] [''col'']"
  let ?db = "[[(''i'', PInt 1), (''col'', PInt 7)]]"
  let ?db2 = "[[(''i'', PInt 1), (''j'', PInt 2), (''col'', PInt 7)],
         [(''i'', PInt 1), (''j'', PInt 3), (''col'', PInt 8)]]"
  have cf: "''col'' \<in> set (columns ?f)" and cg: "''col'' \<in> set (columns ?g)"
    and nf: "\<not> in_columns (PStr ''nocol'') (columns ?f)"
    by (simp_all add: store_frame_def in_columns_def)
  have e1: "series_sel_value \<lparr>obj = ?f, column = ''col''\<rparr> ?db (as_tuple (PTuple [])) [] =
      Inr (PInt 7)"
    by (simp add: series_sel_value_def series_sel_values_def sel_records_def dict_of_zip_def
          dict_update_def dict_setitem_def store_frame_def matches_def dict_getitem_def
          as_tuple_def)
  have e2: "series_sel_value \<lparr>obj = ?g, column = ''col''\<rparr> ?db2 (as_tuple (PTuple [PInt 1])) [] =
      Inr (PInt 7)"
    by (simp add: series_sel_value_def series_sel_values_def sel_records_def dict_of_zip_def
          dict_update_def dict_setitem_def store_frame_def matches_def dict_getitem_def
          as_tuple_def)
  have e3: "sel_records ?f ?db (as_tuple (PTuple [PInt 5])) [] = Inr []"
    by (simp add: sel_records_def dict_of_zip_def dict_update_def dict_setitem_def
          store_frame_def matches_def as_tuple_def)
  have s1: "\<not> list_ex is_slice_list_none (as_tuple (PTuple []))"
    and s2: "\<not> list_ex is_slice_list_none (as_tuple (PTuple [PInt 1]))"
    and s3: "\<not> list_ex is_slice_list_none (as_tuple (PTuple [PInt 5]))"
    and s4: "list_ex is_slice_list_none (as_tuple (PTuple [PSlice PNone PNone PNone]))"
    and s5: "\<forall>i c. PInt 5 \<noteq> PTuple [i, c]"
    by (simp_all add: as_tuple_def)
  have l1: "length (as_tuple (PTuple [])) < length (index_names ?f)"
    and l2: "length (as_tuple (PTuple [PInt 1])) < length (index_names ?g)"
    by (simp_all add: as_tuple_def store_frame_def)
  have r1: "at_getitem ?f ?db (PTuple [PTuple [], PStr ''col'']) = Inr (PInt 7)"
    using at_getitem_cases [where self = ?f and db = ?db and key = "PNone"
        and col = "PStr ''col''" and index = "PTuple []" and c = "''col''"] cf s1 e1
    by simp
  have r2: "at_getitem ?g ?db2 (PTuple [PTuple [PInt 1], PStr ''col'']) = Inr (PInt 7)"
    using at_getitem_cases [where self = ?g and db = ?db2 and key = "PNone"
        and col = "PStr ''col''" and index = "PTuple [PInt 1]" and c = "''col''"] cg s2 e2
    by simp
  have r3: "at_getitem ?f ?db (PTuple [PTuple [PInt 5], PStr ''col'']) = Inl (KeyError NoValues)"
    using at_getitem_cases [where self = ?f and db = ?db and key = "PNone"
        and col = "PStr ''col''" and index = "PTuple [PInt 5]" and c = "''col''"] cf s3 e3
    by blast
  have r4: "at_getitem ?f ?db (PTuple [PTuple [PSlice PNone PNone PNone], PStr ''col'']) =
      Inl (KeyError NotUniqueIndex)"
    using at_getitem_cases [where self = ?f and db = ?db and key = "PNone"
        and col = "PStr ''col''" and index = "PTuple [PSlice PNone PNone PNone]" and c = "''col''"] cf s4
    by simp
  have r5: "at_getitem ?f ?db (PTuple [PTuple [PSlice PNone PNone PNone], PStr ''nocol'']) =
      Inl (KeyError ColumnNotFound)"
    using at_getitem_cases [where self = ?f and db = ?db and key = "PNone"
        and col = "PStr ''nocol''" and index = "PTuple [PSlice PNone PNone PNone]" and c = "''col''"] nf
    by simp
  have r6: "at_getitem ?f ?db (PInt 5) = Inl (KeyError IllDefinedLocation)"
    using at_getitem_cases [where self = ?f and db = ?db and key = "PInt 5"
        and col = "PStr ''col''" and index = "PTuple []" and c = "''col''"] s5
    by simp
  from l1 l2 r1 r2 r3 r4 r5 r6 show ?thesis by simp
qed


section \<open>The REST query compiler: composite indexes\<close>






end
